theory Spec2Isabelle
  imports Complex_Main
begin

section \<open>The page handler of \<open>src/main.ts\<close>\<close>

text \<open>
  The development embeds \<open>requestHandler\<close> of \<open>src/main.ts\<close> from the point where the
  crawler has delivered the page's HTML (\<open>originalContentHtml\<close>, line 82) up to
  \<open>Dataset.pushData\<close> (line 184). Link enqueueing (lines 59 to 80) and the \<open>log\<close> calls
  neither read nor write anything the handler uses afterwards and are left out. The
  module's top level (lines 31 to 56) runs once, before any page; its results that the
  handler reads, \<open>input\<close> and \<open>modelConfig\<close>, are arguments of the model.

  The modules \<open>openai.js\<close> and \<open>processors.js\<close> are imported by \<open>main.ts\<close> but are not
  part of the sources at hand. Their functions are parameters of the model (the record
  \<open>Collaborators\<close>); only the usage accumulator class is given a definition, from the
  specification.
\<close>

subsection \<open>Data\<close>

text \<open>\<open>modelConfig\<close> (line 38): the value returned by \<open>validateGPTModel\<close>.\<close>

record ModelConfig =
  model :: string
  maxTokens :: nat

text \<open>
  The fields of \<open>Input\<close> (\<open>input.ts\<close>) that the handler reads after line 82. Optional
  fields are options; \<open>longContentConfig\<close> is a string because the input is an unchecked
  cast of JSON (\<open>Actor.getInput() as Input\<close>, line 33) and the handler itself tests for
  values outside the three of the type.
\<close>

record Input =
  instructions :: string
  content :: "string option"
  longContentConfig :: "string option"
  openaiApiKey :: string

text \<open>What \<open>processInstructions\<close> resolves to: \<open>{ answer, usage }\<close>.\<close>

record Usage =
  promptTokens :: nat
  completionTokens :: nat
  totalTokens :: nat

record CallResult =
  answer :: string
  usage :: Usage

text \<open>
  Modelled from the spec: the class \<open>OpenaiAPIUsage\<close> of \<open>openai.js\<close> is missing from the
  sources. Section 3 of the specification: its state is the running total of token usage
  for the current page. Its method \<open>hasApiKeyExceeded\<close> compares against a ceiling the
  specification leaves open; it is a parameter (see \<open>Collaborators\<close>).
\<close>

record OpenaiAPIUsage =
  usageModel :: string
  accumulated :: Usage

text \<open>
  Modelled from the spec: the constructor of \<open>OpenaiAPIUsage\<close> (missing with \<open>openai.js\<close>),
  called at line 104. Section 4.6: the accumulator is created fresh per page; its running
  total starts at zero.
\<close>

definition new_OpenaiAPIUsage :: "string \<Rightarrow> OpenaiAPIUsage" where
  "new_OpenaiAPIUsage m =
     \<lparr>usageModel = m,
      accumulated = \<lparr>promptTokens = 0, completionTokens = 0, totalTokens = 0\<rparr>\<rparr>"

text \<open>
  Modelled from the spec: the method \<open>logApiCallUsage\<close> of \<open>OpenaiAPIUsage\<close> (missing with
  \<open>openai.js\<close>). Section 4.6: \<open>record(usage)\<close> adds a call's usage to the running total.
\<close>

definition logApiCallUsage :: "OpenaiAPIUsage \<Rightarrow> Usage \<Rightarrow> OpenaiAPIUsage" where
  "logApiCallUsage acc u =
     acc\<lparr>accumulated :=
         \<lparr>promptTokens = promptTokens (accumulated acc) + promptTokens u,
          completionTokens = completionTokens (accumulated acc) + completionTokens u,
          totalTokens = totalTokens (accumulated acc) + totalTokens u\<rparr>\<rparr>"

text \<open>
  Modelled from the spec: the method \<open>getTotalTokenUsage\<close> of \<open>OpenaiAPIUsage\<close> (missing
  with \<open>openai.js\<close>). Section 4.6: \<open>total()\<close> returns the accumulated total tokens.
\<close>

definition getTotalTokenUsage :: "OpenaiAPIUsage \<Rightarrow> nat" where
  "getTotalTokenUsage acc = totalTokens (accumulated acc)"

text \<open>
  The object handed to \<open>Dataset.pushData\<close> (lines 184 to 196), without the spread of
  \<open>createRequestDebugInfo(request)\<close>, which is the crawler's.
\<close>

record DatasetItem =
  contentLength :: nat
  contentTokenLength :: nat
  instructionTokenLength :: nat
  answerTokenLength :: nat
  totalTokenLength :: nat
  openaiModel :: string
  openaiApiKey :: bool
  answer :: string
  originalContent :: string
  content :: string

text \<open>
  What the handler can throw: \<open>new Error(message)\<close> (line 163), or the value of
  \<open>rethrowOpenaiError(err)\<close> (lines 130, 160, 177).
\<close>

datatype 'e thrown = Error string | Rethrown 'e

datatype 'e completion = Returned | Thrown "'e thrown"

text \<open>
  One run of the handler on one page: the prompts passed to \<open>processInstructions\<close> in
  the order of the calls, the page's usage accumulator as the handler leaves it, the
  items pushed to the dataset, and how the handler ended.
\<close>

record 'e Run =
  calls :: "string list"
  openaiUsage :: OpenaiAPIUsage
  pushed :: "DatasetItem list"
  outcome :: "'e completion"

text \<open>
  The imported functions. \<open>processInstructions\<close> takes the position of the call among
  the calls of the page besides the prompt, so that the model may answer two equal
  prompts differently; \<open>Inl\<close> is a rejected promise. The token budget is a JavaScript
  number that need not be an integer (\<open>maxTokens * 0.9\<close>), hence \<open>real\<close>.
\<close>

record 'e Collaborators =
  htmlToMarkdown :: "string \<Rightarrow> string"
  htmlToText :: "string \<Rightarrow> string"
  shrinkHtml :: "string \<Rightarrow> string"
  getNumberOfTextTokens :: "string \<Rightarrow> nat"
  shortsTextByTokenLength :: "string \<Rightarrow> real \<Rightarrow> string"
  chunkTextByTokenLenght :: "string \<Rightarrow> real \<Rightarrow> string list"
  processInstructions :: "nat \<Rightarrow> string \<Rightarrow> 'e + CallResult"
  rethrowOpenaiError :: "'e \<Rightarrow> 'e"
  hasApiKeyExceeded :: "OpenaiAPIUsage \<Rightarrow> string \<Rightarrow> bool"

subsection \<open>JavaScript library functions\<close>

text \<open>\<open>Array.prototype.join\<close> on an array of strings.\<close>

fun join :: "string \<Rightarrow> string list \<Rightarrow> string" where
  "join sep [] = []"
| "join sep [x] = x"
| "join sep (x # y # ys) = x @ sep @ join sep (y # ys)"

text \<open>
  \<open>Promise.all\<close> over promises that all settle. \<open>rs\<close> holds the settlement of each
  promise by position. \<open>order\<close> lists positions in the order in which they settle;
  positions it does not list settle after the listed ones, by position, and numbers that
  are no position are passed over. The combined promise rejects with the reason of the
  promise that rejects first, and otherwise fulfils with the values by position.
\<close>

fun first_rejection :: "nat list \<Rightarrow> ('e + 'a) list \<Rightarrow> 'e option" where
  "first_rejection [] rs = None"
| "first_rejection (i # is) rs =
     (if i < length rs
      then (case rs ! i of Inl e \<Rightarrow> Some e | Inr v \<Rightarrow> first_rejection is rs)
      else first_rejection is rs)"

fun fulfilled :: "('e + 'a) list \<Rightarrow> 'a list" where
  "fulfilled [] = []"
| "fulfilled (Inr v # rs) = v # fulfilled rs"
| "fulfilled (Inl e # rs) = fulfilled rs"

definition promise_all :: "nat list \<Rightarrow> ('e + 'a) list \<Rightarrow> 'e + 'a list" where
  "promise_all order rs =
     (case first_rejection (order @ [0..<length rs]) rs of
        Some e \<Rightarrow> Inl e
      | None \<Rightarrow> Inr (fulfilled rs))"

subsection \<open>The handler\<close>

definition DEFAULT_CONTENT :: string where
  "DEFAULT_CONTENT = ''markdown''"

text \<open>Line 87: \<open>input.content || DEFAULT_CONTENT\<close>; the empty string is falsy.\<close>

definition contentFormat :: "Input \<Rightarrow> string" where
  "contentFormat inp =
     (case Input.content inp of
        None \<Rightarrow> DEFAULT_CONTENT
      | Some c \<Rightarrow> if c = [] then DEFAULT_CONTENT else c)"

text \<open>Lines 88 to 99: the \<open>switch\<close> on the format.\<close>

definition pageContentOf :: "'e Collaborators \<Rightarrow> Input \<Rightarrow> string \<Rightarrow> string" where
  "pageContentOf env inp originalContentHtml =
     (if contentFormat inp = ''markdown'' then htmlToMarkdown env originalContentHtml
      else if contentFormat inp = ''text'' then htmlToText env originalContentHtml
      else shrinkHtml env originalContentHtml)"

text \<open>Lines 120, 141 and 167: the prompt template.\<close>

definition buildPrompt :: "string \<Rightarrow> string \<Rightarrow> string" where
  "buildPrompt instr text = instr @ ''```'' @ text @ ''```''"

text \<open>Lines 113 and 133: \<open>(modelConfig.maxTokens * 0.9) - instructionTokenLength\<close>.\<close>

definition contentMaxTokens :: "'e Collaborators \<Rightarrow> ModelConfig \<Rightarrow> Input \<Rightarrow> real" where
  "contentMaxTokens env cfg inp =
     real (maxTokens cfg) * 0.9 - real (getNumberOfTextTokens env (instructions inp))"

text \<open>Lines 181 to 196: the item built from the page, the answer and the accumulator.\<close>

definition datasetItem ::
  "'e Collaborators \<Rightarrow> ModelConfig \<Rightarrow> Input \<Rightarrow> string \<Rightarrow> string \<Rightarrow> OpenaiAPIUsage
    \<Rightarrow> DatasetItem" where
  "datasetItem env cfg inp originalContentHtml ans acc =
     \<lparr>contentLength = length (pageContentOf env inp originalContentHtml),
      contentTokenLength = getNumberOfTextTokens env (pageContentOf env inp originalContentHtml),
      instructionTokenLength = getNumberOfTextTokens env (instructions inp),
      answerTokenLength = getNumberOfTextTokens env ans,
      totalTokenLength = getTotalTokenUsage acc,
      openaiModel = model cfg,
      openaiApiKey = hasApiKeyExceeded env acc (Input.openaiApiKey inp),
      answer = ans,
      originalContent = originalContentHtml,
      content = pageContentOf env inp originalContentHtml\<rparr>"

text \<open>
  Lines 125 to 131 and 172 to 178, followed by lines 181 to 196: one call, awaited; a
  rejection is rethrown, a result sets the answer and is logged to the accumulator.
\<close>

definition singleCall ::
  "'e Collaborators \<Rightarrow> ModelConfig \<Rightarrow> Input \<Rightarrow> string \<Rightarrow> string \<Rightarrow> 'e Run" where
  "singleCall env cfg inp originalContentHtml prompt =
     (case processInstructions env 0 prompt of
        Inl err \<Rightarrow>
          \<lparr>calls = [prompt], openaiUsage = new_OpenaiAPIUsage (model cfg), pushed = [],
           outcome = Thrown (Rethrown (rethrowOpenaiError env err))\<rparr>
      | Inr answerResult \<Rightarrow>
          (let acc = logApiCallUsage (new_OpenaiAPIUsage (model cfg)) (usage answerResult)
           in \<lparr>calls = [prompt], openaiUsage = acc,
               pushed = [datasetItem env cfg inp originalContentHtml
                           (CallResult.answer answerResult) acc],
               outcome = Returned\<rparr>))"

text \<open>
  Lines 133 to 161, followed by lines 181 to 196: the page is cut into chunks (line 134),
  every chunk's call is started in the loop, then all are awaited together.
\<close>

definition pageChunksOf ::
  "'e Collaborators \<Rightarrow> ModelConfig \<Rightarrow> Input \<Rightarrow> string \<Rightarrow> string list" where
  "pageChunksOf env cfg inp originalContentHtml =
     chunkTextByTokenLenght env (pageContentOf env inp originalContentHtml)
       (contentMaxTokens env cfg inp)"

definition splitCalls ::
  "'e Collaborators \<Rightarrow> ModelConfig \<Rightarrow> Input \<Rightarrow> nat list \<Rightarrow> string \<Rightarrow> 'e Run" where
  "splitCalls env cfg inp order originalContentHtml =
     (let pageChunks = pageChunksOf env cfg inp originalContentHtml;
          prompts = map (buildPrompt (instructions inp)) pageChunks;
          promises = map (\<lambda>(i, prompt). processInstructions env i prompt)
                       (enumerate 0 prompts)
      in case promise_all order promises of
           Inl err \<Rightarrow>
             \<lparr>calls = prompts, openaiUsage = new_OpenaiAPIUsage (model cfg), pushed = [],
              outcome = Thrown (Rethrown (rethrowOpenaiError env err))\<rparr>
         | Inr results \<Rightarrow>
             (let ans = join ''\<newline>'' (map CallResult.answer results);
                  acc = foldl logApiCallUsage (new_OpenaiAPIUsage (model cfg))
                          (map usage results)
              in \<lparr>calls = prompts, openaiUsage = acc,
                  pushed = [datasetItem env cfg inp originalContentHtml ans acc],
                  outcome = Returned\<rparr>))"

text \<open>
  Lines 100 to 179. \<open>order\<close> is the order in which the chunk calls of a split settle
  (see \<open>promise_all\<close>); nothing else of the handler depends on it.
\<close>

definition requestHandler ::
  "'e Collaborators \<Rightarrow> ModelConfig \<Rightarrow> Input \<Rightarrow> nat list \<Rightarrow> string \<Rightarrow> 'e Run" where
  "requestHandler env cfg inp order originalContentHtml =
     (let pageContent = pageContentOf env inp originalContentHtml
      in if getNumberOfTextTokens env pageContent > maxTokens cfg then
           (if longContentConfig inp = Some ''skip'' then
              \<lparr>calls = [], openaiUsage = new_OpenaiAPIUsage (model cfg), pushed = [],
               outcome = Returned\<rparr>
            else if longContentConfig inp = Some ''truncate'' then
              singleCall env cfg inp originalContentHtml
                (buildPrompt (instructions inp)
                   (shortsTextByTokenLength env pageContent (contentMaxTokens env cfg inp)))
            else if longContentConfig inp = Some ''split'' then
              splitCalls env cfg inp order originalContentHtml
            else
              \<lparr>calls = [], openaiUsage = new_OpenaiAPIUsage (model cfg), pushed = [],
               outcome = Thrown (Error (''Unsupported config value for longContentConfig: ''
                 @ (case longContentConfig inp of None \<Rightarrow> ''undefined'' | Some v \<Rightarrow> v)))\<rparr>)
         else
           singleCall env cfg inp originalContentHtml
             (buildPrompt (instructions inp) pageContent))"

subsection \<open>Sample collaborators\<close>

text \<open>
  Collaborators, a configuration and an input for running the handler on concrete
  pages. A token is a character; truncation keeps the first \<open>\<lfloor>budget\<rfloor>\<close> characters;
  splitting starts a new chunk when the next character would exceed \<open>\<lfloor>budget\<rfloor>\<close>; the
  model answers the call at position \<open>i\<close> with \<open>i + 1\<close> letters.
\<close>

fun cutEvery :: "nat \<Rightarrow> string \<Rightarrow> string \<Rightarrow> string list" where
  "cutEvery n piece [] = (if piece = [] then [] else [piece])"
| "cutEvery n piece (c # cs) =
     (if piece \<noteq> [] \<and> n < Suc (length piece) then piece # cutEvery n [c] cs
      else cutEvery n (piece @ [c]) cs)"

definition sample_env :: "string Collaborators" where
  "sample_env =
     \<lparr>htmlToMarkdown = (\<lambda>h. ''# '' @ h),
      htmlToText = (\<lambda>h. h),
      shrinkHtml = (\<lambda>h. ''<p>'' @ h @ ''</p>''),
      getNumberOfTextTokens = length,
      shortsTextByTokenLength = (\<lambda>t n. take (nat \<lfloor>n\<rfloor>) t),
      chunkTextByTokenLenght = (\<lambda>t n. cutEvery (nat \<lfloor>n\<rfloor>) [] t),
      processInstructions = (\<lambda>i p. Inr
        \<lparr>CallResult.answer = replicate (Suc i) (CHR ''a''),
         usage = \<lparr>promptTokens = length p, completionTokens = Suc i,
                  totalTokens = length p + Suc i\<rparr>\<rparr>),
      rethrowOpenaiError = (\<lambda>e. e),
      hasApiKeyExceeded = (\<lambda>acc key. False)\<rparr>"

text \<open>The same collaborators with a model that rejects the second call of a page.\<close>

definition failing_env :: "string Collaborators" where
  "failing_env = sample_env\<lparr>processInstructions :=
     (\<lambda>i p. if i = 1 then Inl ''429'' else processInstructions sample_env i p)\<rparr>"

definition sample_cfg :: ModelConfig where
  "sample_cfg = \<lparr>model = ''gpt-3.5-turbo'', maxTokens = 10\<rparr>"

definition sample_input :: Input where
  "sample_input =
     \<lparr>instructions = ''Sum:'', content = Some ''text'',
      longContentConfig = Some ''truncate'', openaiApiKey = ''sk-1''\<rparr>"


section \<open>Properties\<close>

subsection \<open>Auxiliary facts\<close>

lemma pageContentOf_policy [simp]:
  "pageContentOf env (inp\<lparr>longContentConfig := p\<rparr>) html = pageContentOf env inp html"
  by (simp add: pageContentOf_def contentFormat_def)

lemma calls_singleCall [simp]:
  "calls (singleCall env cfg inp html prompt) = [prompt]"
  by (simp add: singleCall_def Let_def split: sum.split)

lemma outcome_singleCall_no_Error [simp]:
  "outcome (singleCall env cfg inp html prompt) \<noteq> Thrown (Error msg)"
  by (simp add: singleCall_def Let_def split: sum.split)

lemma first_rejection_SomeD:
  "first_rejection is rs = Some e \<Longrightarrow> \<exists>j<length rs. rs ! j = Inl e"
  by (induction "is") (auto split: if_splits sum.splits)

lemma first_rejection_NoneD:
  "first_rejection is rs = None \<Longrightarrow> i \<in> set is \<Longrightarrow> i < length rs \<Longrightarrow> \<exists>v. rs ! i = Inr v"
  by (induction "is") (auto split: if_splits sum.splits)

lemma first_rejection_all_Inr:
  "\<forall>i<length rs. \<exists>v. rs ! i = Inr v \<Longrightarrow> first_rejection is rs = None"
  by (induction "is") (fastforce split: sum.splits)+

lemma fulfilled_map_Inr [simp]: "fulfilled (map Inr vs) = vs"
  by (induction vs) auto

lemma promise_all_rejects:
  assumes "i < length rs" and "rs ! i = Inl e"
  shows "\<exists>j e'. j < length rs \<and> rs ! j = Inl e' \<and> promise_all order rs = Inl e'"
proof (cases "first_rejection (order @ [0..<length rs]) rs")
  case None
  from first_rejection_NoneD [OF None, of i] assms show ?thesis by simp
next
  case (Some e')
  from first_rejection_SomeD [OF Some] show ?thesis
    by (auto simp: promise_all_def Some)
qed

lemma promise_all_fulfils:
  assumes "\<And>i. i < length rs \<Longrightarrow> rs ! i = Inr (f i)"
  shows "promise_all order rs = Inr (map f [0..<length rs])"
proof -
  have "rs = map Inr (map f [0..<length rs])"
    using assms by (intro nth_equalityI) auto
  moreover have "first_rejection (order @ [0..<length rs]) rs = None"
    using assms by (intro first_rejection_all_Inr) simp
  ultimately show ?thesis
    by (metis promise_all_def option.simps(4) fulfilled_map_Inr)
qed

lemma splitCalls_calls [simp]:
  "calls (splitCalls env cfg inp order html) =
     map (buildPrompt (instructions inp))
       (pageChunksOf env cfg inp html)"
  by (simp add: splitCalls_def Let_def split: sum.split)

lemma outcome_splitCalls_no_Error [simp]:
  "outcome (splitCalls env cfg inp order html) \<noteq> Thrown (Error msg)"
  by (simp add: splitCalls_def Let_def split: sum.split)

lemma splitCalls_rejected:
  assumes "i < length (pageChunksOf env cfg inp html)"
    and "processInstructions env i (buildPrompt (instructions inp)
           (pageChunksOf env cfg inp html ! i)) = Inl e"
  shows "\<exists>j e'. j < length (pageChunksOf env cfg inp html)
           \<and> processInstructions env j (buildPrompt (instructions inp)
               (pageChunksOf env cfg inp html ! j)) = Inl e'
           \<and> splitCalls env cfg inp order html =
               \<lparr>calls = map (buildPrompt (instructions inp))
                          (pageChunksOf env cfg inp html),
                openaiUsage = new_OpenaiAPIUsage (model cfg), pushed = [],
                outcome = Thrown (Rethrown (rethrowOpenaiError env e'))\<rparr>"
proof -
  define chunks where "chunks = pageChunksOf env cfg inp html"
  define prompts where "prompts = map (buildPrompt (instructions inp)) chunks"
  define promises where "promises = map (\<lambda>(i, prompt). processInstructions env i prompt)
                       (enumerate 0 prompts)"
  have len: "length promises = length chunks"
    by (simp add: promises_def prompts_def)
  have nth: "promises ! j = processInstructions env j (buildPrompt (instructions inp) (chunks ! j))"
    if "j < length chunks" for j
    using that by (simp add: promises_def prompts_def nth_enumerate_eq)
  from assms have "i < length promises" "promises ! i = Inl e"
    by (simp_all add: len nth chunks_def [symmetric])
  from promise_all_rejects [OF this, of order]
  obtain j e' where j: "j < length promises" "promises ! j = Inl e'"
    "promise_all order promises = Inl e'" by blast
  have "splitCalls env cfg inp order html =
          \<lparr>calls = prompts, openaiUsage = new_OpenaiAPIUsage (model cfg), pushed = [],
           outcome = Thrown (Rethrown (rethrowOpenaiError env e'))\<rparr>"
    using j(3) by (simp add: splitCalls_def Let_def chunks_def prompts_def promises_def)
  with j(1,2) show ?thesis
    unfolding chunks_def [symmetric] prompts_def [symmetric]
    by (auto simp: len nth)
qed

lemma splitCalls_fulfilled:
  assumes "\<And>i. i < length (pageChunksOf env cfg inp html) \<Longrightarrow>
     processInstructions env i (buildPrompt (instructions inp)
           (pageChunksOf env cfg inp html ! i)) = Inr (res i)"
  shows "pushed (splitCalls env cfg inp order html) =
      [datasetItem env cfg inp html
         (join ''\<newline>'' (map (\<lambda>i. CallResult.answer (res i))
            [0..<length (pageChunksOf env cfg inp html)]))
         (foldl logApiCallUsage (new_OpenaiAPIUsage (model cfg))
            (map (\<lambda>i. usage (res i))
               [0..<length (pageChunksOf env cfg inp html)]))]"
proof -
  define chunks where "chunks = pageChunksOf env cfg inp html"
  define prompts where "prompts = map (buildPrompt (instructions inp)) chunks"
  define promises where "promises = map (\<lambda>(i, prompt). processInstructions env i prompt)
                       (enumerate 0 prompts)"
  have len: "length promises = length chunks"
    by (simp add: promises_def prompts_def)
  have "promises ! j = Inr (res j)" if "j < length promises" for j
    using that assms [of j]
    by (simp add: promises_def prompts_def nth_enumerate_eq chunks_def)
  from promise_all_fulfils [of promises res order, OF this]
  have "promise_all order promises = Inr (map res [0..<length chunks])"
    by (simp add: len)
  then show ?thesis
    unfolding chunks_def [symmetric]
    by (simp add: splitCalls_def Let_def chunks_def [symmetric] prompts_def [symmetric]
        promises_def [symmetric] comp_def)
qed

lemma getTotalTokenUsage_foldl:
  "getTotalTokenUsage (foldl logApiCallUsage acc us) =
     getTotalTokenUsage acc + sum_list (map totalTokens us)"
  by (induction us arbitrary: acc) (simp_all add: getTotalTokenUsage_def logApiCallUsage_def)



subsection \<open>Content that fits the model\<close>

text \<open>
  C1. For every page whose content token count is at most \<open>maxTokens\<close>, the handler makes
  exactly one model call, and its prompt is the instructions followed by the whole,
  untouched page content between the fence markers. This holds for every value \<open>policy\<close>
  of \<open>longContentConfig\<close>, set or unset, supported or not.
\<close>

theorem pass_through_one_call_full_content:
  assumes "getNumberOfTextTokens env (pageContentOf env inp html) \<le> maxTokens cfg"
  shows "calls (requestHandler env cfg (inp\<lparr>longContentConfig := policy\<rparr>) order html)
           = [instructions inp @ ''```'' @ pageContentOf env inp html @ ''```'']"
  using assms by (simp add: requestHandler_def Let_def buildPrompt_def)

theorem pass_through_one_call_full_content_witness:
  "getNumberOfTextTokens sample_env (pageContentOf sample_env sample_input ''abc'')
     \<le> maxTokens sample_cfg
   \<and> calls (requestHandler sample_env sample_cfg
         (sample_input\<lparr>longContentConfig := Some ''skip''\<rparr>) [] ''abc'')
       = [''Sum:```abc```'']"
proof -
  have h: "getNumberOfTextTokens sample_env (pageContentOf sample_env sample_input ''abc'')
             \<le> maxTokens sample_cfg"
    by (simp add: sample_env_def sample_input_def sample_cfg_def pageContentOf_def
        contentFormat_def)
  have c: "pageContentOf sample_env sample_input ''abc'' = ''abc''"
    by (simp add: sample_env_def sample_input_def pageContentOf_def contentFormat_def)
  have i: "instructions sample_input = ''Sum:''"
    by (simp add: sample_input_def)
  show ?thesis
    using h pass_through_one_call_full_content [OF h, of "Some ''skip''" "[]"]
    by (simp add: c i)
qed

subsection \<open>Unsupported policy values\<close>

text \<open>
  C2, as stated, fails: on a page whose content fits the model, a policy value outside
  \<open>skip\<close>, \<open>truncate\<close>, \<open>split\<close> raises nothing. The handler makes its model call, pushes
  the item and returns.
\<close>

theorem unsupported_policy_ignored_when_content_fits:
  "longContentConfig (sample_input\<lparr>longContentConfig := Some ''bogus''\<rparr>)
     \<notin> {Some ''skip'', Some ''truncate'', Some ''split''}
   \<and> calls (requestHandler sample_env sample_cfg
         (sample_input\<lparr>longContentConfig := Some ''bogus''\<rparr>) [] ''abc'')
       = [''Sum:```abc```'']
   \<and> length (pushed (requestHandler sample_env sample_cfg
         (sample_input\<lparr>longContentConfig := Some ''bogus''\<rparr>) [] ''abc'')) = 1
   \<and> outcome (requestHandler sample_env sample_cfg
         (sample_input\<lparr>longContentConfig := Some ''bogus''\<rparr>) [] ''abc'') = Returned"
  by (simp add: requestHandler_def singleCall_def Let_def buildPrompt_def pageContentOf_def
      contentFormat_def sample_env_def sample_input_def sample_cfg_def)

text \<open>
  C2, amended. For every page whose content token count exceeds \<open>maxTokens\<close>, a
  \<open>longContentConfig\<close> outside \<open>skip\<close>, \<open>truncate\<close>, \<open>split\<close> (an unset one included) makes
  the handler throw the configuration error of line 163, with no model call made and no
  item pushed.
\<close>

theorem unsupported_policy_rejected_when_content_too_long:
  assumes "maxTokens cfg < getNumberOfTextTokens env (pageContentOf env inp html)"
    and "longContentConfig inp \<notin> {Some ''skip'', Some ''truncate'', Some ''split''}"
  shows "calls (requestHandler env cfg inp order html) = []
    \<and> pushed (requestHandler env cfg inp order html) = []
    \<and> outcome (requestHandler env cfg inp order html) =
        Thrown (Error (''Unsupported config value for longContentConfig: ''
          @ (case longContentConfig inp of None \<Rightarrow> ''undefined'' | Some v \<Rightarrow> v)))"
  using assms by (simp add: requestHandler_def Let_def)

theorem unsupported_policy_rejected_when_content_too_long_witness:
  "maxTokens sample_cfg < getNumberOfTextTokens sample_env
      (pageContentOf sample_env (sample_input\<lparr>longContentConfig := Some ''bogus''\<rparr>)
         ''abcdefghijkl'')
   \<and> longContentConfig (sample_input\<lparr>longContentConfig := Some ''bogus''\<rparr>)
       \<notin> {Some ''skip'', Some ''truncate'', Some ''split''}
   \<and> calls (requestHandler sample_env sample_cfg
         (sample_input\<lparr>longContentConfig := Some ''bogus''\<rparr>) [] ''abcdefghijkl'') = []
   \<and> outcome (requestHandler sample_env sample_cfg
         (sample_input\<lparr>longContentConfig := Some ''bogus''\<rparr>) [] ''abcdefghijkl'')
       = Thrown (Error ''Unsupported config value for longContentConfig: bogus'')"
proof -
  have h1: "maxTokens sample_cfg < getNumberOfTextTokens sample_env
      (pageContentOf sample_env (sample_input\<lparr>longContentConfig := Some ''bogus''\<rparr>)
         ''abcdefghijkl'')"
    by (simp add: sample_env_def sample_input_def sample_cfg_def pageContentOf_def
        contentFormat_def)
  have h2: "longContentConfig (sample_input\<lparr>longContentConfig := Some ''bogus''\<rparr>)
       \<notin> {Some ''skip'', Some ''truncate'', Some ''split''}"
    by simp
  show ?thesis
    using h1 h2 unsupported_policy_rejected_when_content_too_long [OF h1 h2, of "[]"]
    by simp
qed

subsection \<open>The skip policy\<close>

text \<open>
  C5. For every page whose content token count exceeds \<open>maxTokens\<close> and whose policy is
  \<open>skip\<close>, the handler makes no model call, pushes no item, and returns normally.
\<close>

theorem skip_no_call_no_item_normal_return:
  assumes "maxTokens cfg < getNumberOfTextTokens env (pageContentOf env inp html)"
    and "longContentConfig inp = Some ''skip''"
  shows "calls (requestHandler env cfg inp order html) = []
    \<and> pushed (requestHandler env cfg inp order html) = []
    \<and> outcome (requestHandler env cfg inp order html) = Returned"
  using assms by (simp add: requestHandler_def Let_def)

theorem skip_no_call_no_item_normal_return_witness:
  "maxTokens sample_cfg < getNumberOfTextTokens sample_env
      (pageContentOf sample_env (sample_input\<lparr>longContentConfig := Some ''skip''\<rparr>)
         ''abcdefghijkl'')
   \<and> longContentConfig (sample_input\<lparr>longContentConfig := Some ''skip''\<rparr>) = Some ''skip''
   \<and> calls (requestHandler sample_env sample_cfg
         (sample_input\<lparr>longContentConfig := Some ''skip''\<rparr>) [] ''abcdefghijkl'') = []
   \<and> pushed (requestHandler sample_env sample_cfg
         (sample_input\<lparr>longContentConfig := Some ''skip''\<rparr>) [] ''abcdefghijkl'') = []
   \<and> outcome (requestHandler sample_env sample_cfg
         (sample_input\<lparr>longContentConfig := Some ''skip''\<rparr>) [] ''abcdefghijkl'')
       = Returned"
proof -
  have h1: "maxTokens sample_cfg < getNumberOfTextTokens sample_env
      (pageContentOf sample_env (sample_input\<lparr>longContentConfig := Some ''skip''\<rparr>)
         ''abcdefghijkl'')"
    by (simp add: sample_env_def sample_input_def sample_cfg_def pageContentOf_def
        contentFormat_def)
  have h2: "longContentConfig (sample_input\<lparr>longContentConfig := Some ''skip''\<rparr>)
              = Some ''skip''"
    by simp
  show ?thesis
    using h1 h2 skip_no_call_no_item_normal_return [OF h1 h2, of "[]"]
    by simp
qed



subsection \<open>The token budget of truncate and split\<close>

text \<open>
  C3, as stated, fails: the handler never checks the sign of the budget. With
  \<open>maxTokens = 10\<close> and instructions of 12 tokens the budget is \<open>10 * 0.9 - 12 = -3\<close>;
  under \<open>truncate\<close> the handler still makes its model call (here on the empty text the
  sample truncation returns), pushes the item and returns.
\<close>

theorem negative_budget_truncate_still_calls_model:
  "contentMaxTokens sample_env sample_cfg
       (sample_input\<lparr>instructions := ''Summarize it''\<rparr>) = - 3
   \<and> longContentConfig (sample_input\<lparr>instructions := ''Summarize it''\<rparr>) = Some ''truncate''
   \<and> calls (requestHandler sample_env sample_cfg
         (sample_input\<lparr>instructions := ''Summarize it''\<rparr>) [] ''abcdefghijkl'')
       = [''Summarize it``````'']
   \<and> length (pushed (requestHandler sample_env sample_cfg
         (sample_input\<lparr>instructions := ''Summarize it''\<rparr>) [] ''abcdefghijkl'')) = 1
   \<and> outcome (requestHandler sample_env sample_cfg
         (sample_input\<lparr>instructions := ''Summarize it''\<rparr>) [] ''abcdefghijkl'')
       = Returned"
  by (simp add: requestHandler_def singleCall_def Let_def buildPrompt_def pageContentOf_def
      contentFormat_def contentMaxTokens_def sample_env_def sample_input_def sample_cfg_def)

text \<open>
  C3, amended. Under the \<open>truncate\<close> and \<open>split\<close> policies, on a page whose content token
  count exceeds \<open>maxTokens\<close>, the budget \<open>0.9 * maxTokens - instructionTokens\<close> is handed
  to the truncation or to the splitting as computed, negative or not. The handler raises
  no configuration error: under \<open>truncate\<close> it makes exactly one model call, on the text
  the truncation returns for that budget; under \<open>split\<close> it makes one call for each chunk
  the splitting returns for that budget.
\<close>

theorem budget_passed_on_unvalidated:
  assumes "maxTokens cfg < getNumberOfTextTokens env (pageContentOf env inp html)"
    and "longContentConfig inp = Some ''truncate'' \<or> longContentConfig inp = Some ''split''"
  shows "calls (requestHandler env cfg inp order html) =
      (if longContentConfig inp = Some ''truncate''
       then [instructions inp @ ''```''
               @ shortsTextByTokenLength env (pageContentOf env inp html)
                   (contentMaxTokens env cfg inp)
               @ ''```'']
       else map (\<lambda>contentPart. instructions inp @ ''```'' @ contentPart @ ''```'')
              (chunkTextByTokenLenght env (pageContentOf env inp html)
                 (contentMaxTokens env cfg inp)))
    \<and> (\<forall>msg. outcome (requestHandler env cfg inp order html) \<noteq> Thrown (Error msg))"
  using assms
  by (auto simp: requestHandler_def Let_def buildPrompt_def pageChunksOf_def fun_eq_iff)

theorem budget_passed_on_unvalidated_witness:
  "maxTokens sample_cfg < getNumberOfTextTokens sample_env
      (pageContentOf sample_env (sample_input\<lparr>instructions := ''Summarize:''\<rparr>)
         ''abcdefghijk'')
   \<and> contentMaxTokens sample_env sample_cfg
         (sample_input\<lparr>instructions := ''Summarize:''\<rparr>) < 0
   \<and> calls (requestHandler sample_env sample_cfg
         (sample_input\<lparr>instructions := ''Summarize:''\<rparr>) [3] ''abcdefghijk'')
       = [''Summarize:``````'']
   \<and> (\<forall>msg. outcome (requestHandler sample_env sample_cfg
         (sample_input\<lparr>instructions := ''Summarize:''\<rparr>) [3] ''abcdefghijk'')
        \<noteq> Thrown (Error msg))"
proof -
  let ?inp = "sample_input\<lparr>instructions := ''Summarize:''\<rparr>"
  have h1: "maxTokens sample_cfg < getNumberOfTextTokens sample_env
      (pageContentOf sample_env ?inp ''abcdefghijk'')"
    by (simp add: sample_env_def sample_input_def sample_cfg_def pageContentOf_def
        contentFormat_def)
  have h2: "longContentConfig ?inp = Some ''truncate''
            \<or> longContentConfig ?inp = Some ''split''"
    by (simp add: sample_input_def)
  have b: "contentMaxTokens sample_env sample_cfg ?inp = - 1"
    by (simp add: contentMaxTokens_def sample_env_def sample_input_def sample_cfg_def)
  have t: "shortsTextByTokenLength sample_env
             (pageContentOf sample_env ?inp ''abcdefghijk'') (- 1) = []"
    by (simp add: sample_env_def)
  have p: "longContentConfig ?inp = Some ''truncate''" "instructions ?inp = ''Summarize:''"
    by (simp_all add: sample_input_def)
  show ?thesis
    using h1 budget_passed_on_unvalidated [OF h1 h2, of "[3]"]
    by (simp add: b t p)
qed




subsection \<open>The content field of the pushed item\<close>

text \<open>
  C4, as stated, fails: under \<open>truncate\<close> the prompt carries the truncated text, and the
  item's \<open>content\<close> field carries the whole converted page content. Here the budget is
  \<open>10 * 0.9 - 4 = 5\<close>, the prompt holds \<open>abcde\<close> and the item holds \<open>abcdefghijkl\<close>.
\<close>

theorem truncate_item_content_is_not_the_text_sent:
  "longContentConfig sample_input = Some ''truncate''
   \<and> calls (requestHandler sample_env sample_cfg sample_input [] ''abcdefghijkl'')
       = [''Sum:```abcde```'']
   \<and> map DatasetItem.content
         (pushed (requestHandler sample_env sample_cfg sample_input [] ''abcdefghijkl''))
       = [''abcdefghijkl'']"
  by (simp add: requestHandler_def singleCall_def datasetItem_def Let_def buildPrompt_def
      pageContentOf_def contentFormat_def contentMaxTokens_def sample_env_def
      sample_input_def sample_cfg_def)

text \<open>
  C4, amended. For every page for which an item is pushed, the item's \<open>content\<close> field is
  the converted page content, before any truncation or splitting, and its
  \<open>originalContent\<close> field is the page's HTML. The text sent to the model is that content
  itself when the content fits; under \<open>truncate\<close> it is the truncation of that content, and
  under \<open>split\<close> it is its chunks, neither of which the item stores.
\<close>

theorem item_content_is_converted_page_content:
  assumes "item \<in> set (pushed (requestHandler env cfg inp order html))"
  shows "DatasetItem.content item = pageContentOf env inp html
    \<and> originalContent item = html
    \<and> calls (requestHandler env cfg inp order html) =
        (if getNumberOfTextTokens env (DatasetItem.content item) \<le> maxTokens cfg
         then [instructions inp @ ''```'' @ DatasetItem.content item @ ''```'']
         else if longContentConfig inp = Some ''truncate''
         then [instructions inp @ ''```''
                 @ shortsTextByTokenLength env (DatasetItem.content item)
                     (contentMaxTokens env cfg inp)
                 @ ''```'']
         else map (\<lambda>contentPart. instructions inp @ ''```'' @ contentPart @ ''```'')
                (chunkTextByTokenLenght env (DatasetItem.content item)
                   (contentMaxTokens env cfg inp)))"
proof -
  have c: "DatasetItem.content item = pageContentOf env inp html"
    and o: "originalContent item = html"
    using assms
    by (auto simp: requestHandler_def singleCall_def splitCalls_def datasetItem_def Let_def
        split: if_splits sum.splits)
  have "calls (requestHandler env cfg inp order html) =
        (if getNumberOfTextTokens env (pageContentOf env inp html) \<le> maxTokens cfg
         then [instructions inp @ ''```'' @ pageContentOf env inp html @ ''```'']
         else if longContentConfig inp = Some ''truncate''
         then [instructions inp @ ''```''
                 @ shortsTextByTokenLength env (pageContentOf env inp html)
                     (contentMaxTokens env cfg inp)
                 @ ''```'']
         else map (\<lambda>contentPart. instructions inp @ ''```'' @ contentPart @ ''```'')
                (chunkTextByTokenLenght env (pageContentOf env inp html)
                   (contentMaxTokens env cfg inp)))"
    using assms
    by (auto simp: requestHandler_def Let_def buildPrompt_def pageChunksOf_def fun_eq_iff
        split: if_splits)
  with c o show ?thesis by simp
qed

theorem item_content_is_converted_page_content_witness:
  "\<lparr>contentLength = 12, contentTokenLength = 12, instructionTokenLength = 4,
     answerTokenLength = 8, totalTokenLength = 48, openaiModel = ''gpt-3.5-turbo'',
     openaiApiKey = False, answer = ''a\<newline>aa\<newline>aaa'',
     originalContent = ''abcdefghijkl'', content = ''abcdefghijkl''\<rparr>
     \<in> set (pushed (requestHandler sample_env sample_cfg
         (sample_input\<lparr>longContentConfig := Some ''split''\<rparr>) [1] ''abcdefghijkl''))
   \<and> calls (requestHandler sample_env sample_cfg
         (sample_input\<lparr>longContentConfig := Some ''split''\<rparr>) [1] ''abcdefghijkl'')
       = [''Sum:```abcde```'', ''Sum:```fghij```'', ''Sum:```kl```'']"
proof -
  let ?inp = "sample_input\<lparr>longContentConfig := Some ''split''\<rparr>"
  let ?item = "\<lparr>contentLength = 12, contentTokenLength = 12, instructionTokenLength = 4,
     answerTokenLength = 8, totalTokenLength = 48, openaiModel = ''gpt-3.5-turbo'',
     openaiApiKey = False, answer = ''a\<newline>aa\<newline>aaa'',
     originalContent = ''abcdefghijkl'', content = ''abcdefghijkl''\<rparr>"
  have h: "?item \<in> set (pushed (requestHandler sample_env sample_cfg ?inp [1]
             ''abcdefghijkl''))"
    by (simp add: requestHandler_def splitCalls_def pageChunksOf_def promise_all_def
        datasetItem_def Let_def buildPrompt_def pageContentOf_def contentFormat_def
        contentMaxTokens_def getTotalTokenUsage_def logApiCallUsage_def
        new_OpenaiAPIUsage_def enumerate_eq_zip
        sample_env_def sample_input_def sample_cfg_def)
  have b: "contentMaxTokens sample_env sample_cfg ?inp = 5"
    by (simp add: contentMaxTokens_def sample_env_def sample_input_def sample_cfg_def)
  have k: "chunkTextByTokenLenght sample_env ''abcdefghijkl'' 5
             = [''abcde'', ''fghij'', ''kl'']"
    by (simp add: sample_env_def)
  have p: "longContentConfig ?inp = Some ''split''" "instructions ?inp = ''Sum:''"
    "maxTokens sample_cfg = 10" "getNumberOfTextTokens sample_env ''abcdefghijkl'' = 12"
    by (simp_all add: sample_input_def sample_cfg_def sample_env_def)
  show ?thesis
    using h item_content_is_converted_page_content [OF h]
    by (simp add: b k p)
qed



subsection \<open>The split policy\<close>

text \<open>
  C6. Under the \<open>split\<close> policy (content token count above \<open>maxTokens\<close>), if the call of
  any one chunk \<open>i\<close> fails, then the handler throws the classified error
  (\<open>rethrowOpenaiError\<close> applied to the error of a failed chunk call) and pushes no item,
  so no merged answer is produced. Nothing is assumed about the calls of the other chunks
  or about the order in which the calls settle.
\<close>

theorem split_chunk_failure_fails_page:
  assumes "maxTokens cfg < getNumberOfTextTokens env (pageContentOf env inp html)"
    and "longContentConfig inp = Some ''split''"
    and "i < length (pageChunksOf env cfg inp html)"
    and "processInstructions env i
           (instructions inp @ ''```'' @ pageChunksOf env cfg inp html ! i @ ''```'') = Inl e"
  shows "pushed (requestHandler env cfg inp order html) = []
    \<and> (\<exists>j e'. j < length (pageChunksOf env cfg inp html)
          \<and> processInstructions env j
               (instructions inp @ ''```'' @ pageChunksOf env cfg inp html ! j @ ''```'')
              = Inl e'
          \<and> outcome (requestHandler env cfg inp order html)
              = Thrown (Rethrown (rethrowOpenaiError env e')))"
proof -
  from assms(3,4) splitCalls_rejected [of i env cfg inp html e order]
  obtain j e' where j: "j < length (pageChunksOf env cfg inp html)"
    "processInstructions env j
       (buildPrompt (instructions inp) (pageChunksOf env cfg inp html ! j)) = Inl e'"
    "splitCalls env cfg inp order html =
       \<lparr>calls = map (buildPrompt (instructions inp)) (pageChunksOf env cfg inp html),
        openaiUsage = new_OpenaiAPIUsage (model cfg), pushed = [],
        outcome = Thrown (Rethrown (rethrowOpenaiError env e'))\<rparr>"
    by (auto simp: buildPrompt_def)
  have r: "requestHandler env cfg inp order html = splitCalls env cfg inp order html"
    using assms(1,2) by (simp add: requestHandler_def Let_def)
  have "outcome (requestHandler env cfg inp order html)
          = Thrown (Rethrown (rethrowOpenaiError env e'))"
    by (simp add: r j(3))
  with j(1,2) have "\<exists>j e'. j < length (pageChunksOf env cfg inp html)
          \<and> processInstructions env j
               (instructions inp @ ''```'' @ pageChunksOf env cfg inp html ! j @ ''```'')
              = Inl e'
          \<and> outcome (requestHandler env cfg inp order html)
              = Thrown (Rethrown (rethrowOpenaiError env e'))"
    unfolding buildPrompt_def by blast
  moreover have "pushed (requestHandler env cfg inp order html) = []"
    by (simp add: r j(3))
  ultimately show ?thesis by blast
qed


theorem split_chunk_failure_fails_page_witness:
  "maxTokens sample_cfg < getNumberOfTextTokens failing_env
      (pageContentOf failing_env (sample_input\<lparr>longContentConfig := Some ''split''\<rparr>)
         ''abcdefghijkl'')
   \<and> pageChunksOf failing_env sample_cfg
         (sample_input\<lparr>longContentConfig := Some ''split''\<rparr>) ''abcdefghijkl''
       = [''abcde'', ''fghij'', ''kl'']
   \<and> processInstructions failing_env 1 ''Sum:```fghij```'' = Inl ''429''
   \<and> pushed (requestHandler failing_env sample_cfg
         (sample_input\<lparr>longContentConfig := Some ''split''\<rparr>) [2, 0, 1] ''abcdefghijkl'')
       = []
   \<and> outcome (requestHandler failing_env sample_cfg
         (sample_input\<lparr>longContentConfig := Some ''split''\<rparr>) [2, 0, 1] ''abcdefghijkl'')
       = Thrown (Rethrown ''429'')"
proof -
  let ?inp = "sample_input\<lparr>longContentConfig := Some ''split''\<rparr>"
  have h1: "maxTokens sample_cfg < getNumberOfTextTokens failing_env
      (pageContentOf failing_env ?inp ''abcdefghijkl'')"
    by (simp add: failing_env_def sample_env_def sample_input_def sample_cfg_def
        pageContentOf_def contentFormat_def)
  have h2: "longContentConfig ?inp = Some ''split''"
    by simp
  have k: "pageChunksOf failing_env sample_cfg ?inp ''abcdefghijkl''
             = [''abcde'', ''fghij'', ''kl'']"
    by (simp add: pageChunksOf_def contentMaxTokens_def pageContentOf_def contentFormat_def
        failing_env_def sample_env_def sample_input_def sample_cfg_def)
  have i: "instructions ?inp = ''Sum:''"
    by (simp add: sample_input_def)
  have h3: "1 < length (pageChunksOf failing_env sample_cfg ?inp ''abcdefghijkl'')"
    by (simp add: k)
  have h4: "processInstructions failing_env 1
     (instructions ?inp @ ''```''
        @ pageChunksOf failing_env sample_cfg ?inp ''abcdefghijkl'' ! 1 @ ''```'')
     = Inl ''429''"
    by (simp add: failing_env_def)
  have f: "processInstructions failing_env j p = Inl e' \<Longrightarrow> e' = ''429''" for j p e'
    by (simp add: failing_env_def sample_env_def split: if_splits)
  have r: "rethrowOpenaiError failing_env e' = e'" for e'
    by (simp add: failing_env_def sample_env_def)
  from split_chunk_failure_fails_page [OF h1 h2 h3 h4, of "[2, 0, 1]"]
  have "pushed (requestHandler failing_env sample_cfg ?inp [2, 0, 1] ''abcdefghijkl'') = []"
    and "outcome (requestHandler failing_env sample_cfg ?inp [2, 0, 1] ''abcdefghijkl'')
           = Thrown (Rethrown ''429'')"
    by (auto simp: r dest: f)
  moreover have "processInstructions failing_env 1 ''Sum:```fghij```'' = Inl ''429''"
    by (simp add: failing_env_def)
  ultimately show ?thesis
    using h1 k by simp
qed

text \<open>
  C7. Under the \<open>split\<close> policy (content token count above \<open>maxTokens\<close>), when the call of
  every chunk succeeds, the answer of the pushed item is the chunk answers joined with one
  newline between neighbours, in the order of the chunks. The order in which the calls
  settle is arbitrary. The statement also covers the empty chunk sequence, where the
  answer is the empty string.
\<close>

theorem split_answer_is_newline_join_in_chunk_order:
  assumes "maxTokens cfg < getNumberOfTextTokens env (pageContentOf env inp html)"
    and "longContentConfig inp = Some ''split''"
    and "\<forall>i<length (pageChunksOf env cfg inp html).
           processInstructions env i
             (instructions inp @ ''```'' @ pageChunksOf env cfg inp html ! i @ ''```'')
           = Inr (res i)"
  shows "map DatasetItem.answer (pushed (requestHandler env cfg inp order html))
           = [join ''\<newline>'' (map (\<lambda>i. CallResult.answer (res i))
                [0..<length (pageChunksOf env cfg inp html)])]"
proof -
  have r: "requestHandler env cfg inp order html = splitCalls env cfg inp order html"
    using assms(1,2) by (simp add: requestHandler_def Let_def)
  from assms(3) have "processInstructions env i
      (buildPrompt (instructions inp) (pageChunksOf env cfg inp html ! i)) = Inr (res i)"
    if "i < length (pageChunksOf env cfg inp html)" for i
    using that by (simp add: buildPrompt_def)
  from splitCalls_fulfilled [of env cfg inp html res order, OF this]
  show ?thesis
    by (simp add: r datasetItem_def)
qed

theorem split_answer_is_newline_join_in_chunk_order_witness:
  "maxTokens sample_cfg < getNumberOfTextTokens sample_env
      (pageContentOf sample_env (sample_input\<lparr>longContentConfig := Some ''split''\<rparr>)
         ''abcdefghijkl'')
   \<and> pageChunksOf sample_env sample_cfg
         (sample_input\<lparr>longContentConfig := Some ''split''\<rparr>) ''abcdefghijkl''
       = [''abcde'', ''fghij'', ''kl'']
   \<and> map DatasetItem.answer (pushed (requestHandler sample_env sample_cfg
         (sample_input\<lparr>longContentConfig := Some ''split''\<rparr>) [2, 0, 1] ''abcdefghijkl''))
       = [''a\<newline>aa\<newline>aaa'']"
proof -
  let ?inp = "sample_input\<lparr>longContentConfig := Some ''split''\<rparr>"
  let ?res = "\<lambda>i. \<lparr>CallResult.answer = replicate (Suc i) (CHR ''a''),
     usage = \<lparr>promptTokens = length (instructions ?inp @ ''```''
                  @ pageChunksOf sample_env sample_cfg ?inp ''abcdefghijkl'' ! i @ ''```''),
              completionTokens = Suc i,
              totalTokens = length (instructions ?inp @ ''```''
                  @ pageChunksOf sample_env sample_cfg ?inp ''abcdefghijkl'' ! i @ ''```'')
                + Suc i\<rparr>\<rparr>"
  have h1: "maxTokens sample_cfg < getNumberOfTextTokens sample_env
      (pageContentOf sample_env ?inp ''abcdefghijkl'')"
    by (simp add: sample_env_def sample_input_def sample_cfg_def
        pageContentOf_def contentFormat_def)
  have h2: "longContentConfig ?inp = Some ''split''"
    by simp
  have k: "pageChunksOf sample_env sample_cfg ?inp ''abcdefghijkl''
             = [''abcde'', ''fghij'', ''kl'']"
    by (simp add: pageChunksOf_def contentMaxTokens_def pageContentOf_def contentFormat_def
        sample_env_def sample_input_def sample_cfg_def)
  have h3: "\<forall>i<length (pageChunksOf sample_env sample_cfg ?inp ''abcdefghijkl'').
           processInstructions sample_env i
             (instructions ?inp @ ''```''
                @ pageChunksOf sample_env sample_cfg ?inp ''abcdefghijkl'' ! i @ ''```'')
           = Inr (?res i)"
    by (simp add: sample_env_def)
  have u: "[0..<3] = [0, 1, 2]"
    by (simp add: upt_rec)
  show ?thesis
    using h1 k split_answer_is_newline_join_in_chunk_order [OF h1 h2 h3, of "[2, 0, 1]"]
    by (simp add: k u)
qed

text \<open>
  C8. Under the \<open>split\<close> policy (content token count above \<open>maxTokens\<close>), when the call of
  every chunk succeeds, the total token usage reported in the pushed item is the sum of
  the total tokens of the chunk calls, each counted once. The order in which the calls
  settle is arbitrary. The accumulator is the one modelled from the specification.
\<close>

theorem split_total_usage_is_sum_of_chunk_usages:
  assumes "maxTokens cfg < getNumberOfTextTokens env (pageContentOf env inp html)"
    and "longContentConfig inp = Some ''split''"
    and "\<forall>i<length (pageChunksOf env cfg inp html).
           processInstructions env i
             (instructions inp @ ''```'' @ pageChunksOf env cfg inp html ! i @ ''```'')
           = Inr (res i)"
  shows "map totalTokenLength (pushed (requestHandler env cfg inp order html))
           = [sum_list (map (\<lambda>i. totalTokens (usage (res i)))
                [0..<length (pageChunksOf env cfg inp html)])]"
proof -
  have r: "requestHandler env cfg inp order html = splitCalls env cfg inp order html"
    using assms(1,2) by (simp add: requestHandler_def Let_def)
  from assms(3) have "processInstructions env i
      (buildPrompt (instructions inp) (pageChunksOf env cfg inp html ! i)) = Inr (res i)"
    if "i < length (pageChunksOf env cfg inp html)" for i
    using that by (simp add: buildPrompt_def)
  from splitCalls_fulfilled [of env cfg inp html res order, OF this]
  show ?thesis
    by (simp add: r datasetItem_def getTotalTokenUsage_foldl comp_def)
      (simp add: getTotalTokenUsage_def new_OpenaiAPIUsage_def)
qed

theorem split_total_usage_is_sum_of_chunk_usages_witness:
  "maxTokens sample_cfg < getNumberOfTextTokens sample_env
      (pageContentOf sample_env (sample_input\<lparr>longContentConfig := Some ''split''\<rparr>)
         ''abcdefghijkl'')
   \<and> pageChunksOf sample_env sample_cfg
         (sample_input\<lparr>longContentConfig := Some ''split''\<rparr>) ''abcdefghijkl''
       = [''abcde'', ''fghij'', ''kl'']
   \<and> map (\<lambda>i. totalTokens (usage (projr (processInstructions sample_env i
           (''Sum:```'' @ [''abcde'', ''fghij'', ''kl''] ! i @ ''```''))))) [0, 1, 2]
       = [16, 17, 15]
   \<and> map totalTokenLength (pushed (requestHandler sample_env sample_cfg
         (sample_input\<lparr>longContentConfig := Some ''split''\<rparr>) [1, 2, 0] ''abcdefghijkl''))
       = [48]"
proof -
  let ?inp = "sample_input\<lparr>longContentConfig := Some ''split''\<rparr>"
  let ?res = "\<lambda>i. \<lparr>CallResult.answer = replicate (Suc i) (CHR ''a''),
     usage = \<lparr>promptTokens = length (instructions ?inp @ ''```''
                  @ pageChunksOf sample_env sample_cfg ?inp ''abcdefghijkl'' ! i @ ''```''),
              completionTokens = Suc i,
              totalTokens = length (instructions ?inp @ ''```''
                  @ pageChunksOf sample_env sample_cfg ?inp ''abcdefghijkl'' ! i @ ''```'')
                + Suc i\<rparr>\<rparr>"
  have h1: "maxTokens sample_cfg < getNumberOfTextTokens sample_env
      (pageContentOf sample_env ?inp ''abcdefghijkl'')"
    by (simp add: sample_env_def sample_input_def sample_cfg_def
        pageContentOf_def contentFormat_def)
  have h2: "longContentConfig ?inp = Some ''split''"
    by simp
  have k: "pageChunksOf sample_env sample_cfg ?inp ''abcdefghijkl''
             = [''abcde'', ''fghij'', ''kl'']"
    by (simp add: pageChunksOf_def contentMaxTokens_def pageContentOf_def contentFormat_def
        sample_env_def sample_input_def sample_cfg_def)
  have h3: "\<forall>i<length (pageChunksOf sample_env sample_cfg ?inp ''abcdefghijkl'').
           processInstructions sample_env i
             (instructions ?inp @ ''```''
                @ pageChunksOf sample_env sample_cfg ?inp ''abcdefghijkl'' ! i @ ''```'')
           = Inr (?res i)"
    by (simp add: sample_env_def)
  have u: "[0..<3] = [0, 1, 2]"
    by (simp add: upt_rec)
  have i: "instructions ?inp = ''Sum:''"
    by (simp add: sample_input_def)
  have s: "map (\<lambda>i. totalTokens (usage (projr (processInstructions sample_env i
           (''Sum:```'' @ [''abcde'', ''fghij'', ''kl''] ! i @ ''```''))))) [0, 1, 2]
       = [16, 17, 15]"
    by (simp add: sample_env_def)
  show ?thesis
    using h1 k s split_total_usage_is_sum_of_chunk_usages [OF h1 h2 h3, of "[1, 2, 0]"]
    by (simp add: k u i)
qed

text \<open>
  C9. Under the \<open>split\<close> policy (content token count above \<open>maxTokens\<close>), if the call of
  any one chunk fails, the handler leaves the page's usage accumulator as it was created:
  no usage is logged, its total is zero, and no item reports any usage.
\<close>

theorem split_chunk_failure_logs_no_usage:
  assumes "maxTokens cfg < getNumberOfTextTokens env (pageContentOf env inp html)"
    and "longContentConfig inp = Some ''split''"
    and "i < length (pageChunksOf env cfg inp html)"
    and "processInstructions env i
           (instructions inp @ ''```'' @ pageChunksOf env cfg inp html ! i @ ''```'') = Inl e"
  shows "openaiUsage (requestHandler env cfg inp order html) = new_OpenaiAPIUsage (model cfg)
    \<and> getTotalTokenUsage (openaiUsage (requestHandler env cfg inp order html)) = 0
    \<and> pushed (requestHandler env cfg inp order html) = []"
proof -
  from assms(3,4) splitCalls_rejected [of i env cfg inp html e order]
  obtain e' where "splitCalls env cfg inp order html =
       \<lparr>calls = map (buildPrompt (instructions inp)) (pageChunksOf env cfg inp html),
        openaiUsage = new_OpenaiAPIUsage (model cfg), pushed = [],
        outcome = Thrown (Rethrown (rethrowOpenaiError env e'))\<rparr>"
    by (auto simp: buildPrompt_def)
  moreover have "requestHandler env cfg inp order html = splitCalls env cfg inp order html"
    using assms(1,2) by (simp add: requestHandler_def Let_def)
  ultimately show ?thesis
    by (simp add: getTotalTokenUsage_def new_OpenaiAPIUsage_def)
qed

theorem split_chunk_failure_logs_no_usage_witness:
  "maxTokens sample_cfg < getNumberOfTextTokens failing_env
      (pageContentOf failing_env (sample_input\<lparr>longContentConfig := Some ''split''\<rparr>)
         ''abcdefghijkl'')
   \<and> pageChunksOf failing_env sample_cfg
         (sample_input\<lparr>longContentConfig := Some ''split''\<rparr>) ''abcdefghijkl''
       = [''abcde'', ''fghij'', ''kl'']
   \<and> processInstructions failing_env 1 ''Sum:```fghij```'' = Inl ''429''
   \<and> processInstructions failing_env 0 ''Sum:```abcde```'' \<noteq> Inl ''429''
   \<and> getTotalTokenUsage (openaiUsage (requestHandler failing_env sample_cfg
         (sample_input\<lparr>longContentConfig := Some ''split''\<rparr>) [0, 2, 1] ''abcdefghijkl''))
       = 0
   \<and> pushed (requestHandler failing_env sample_cfg
         (sample_input\<lparr>longContentConfig := Some ''split''\<rparr>) [0, 2, 1] ''abcdefghijkl'')
       = []"
proof -
  let ?inp = "sample_input\<lparr>longContentConfig := Some ''split''\<rparr>"
  have h1: "maxTokens sample_cfg < getNumberOfTextTokens failing_env
      (pageContentOf failing_env ?inp ''abcdefghijkl'')"
    by (simp add: failing_env_def sample_env_def sample_input_def sample_cfg_def
        pageContentOf_def contentFormat_def)
  have h2: "longContentConfig ?inp = Some ''split''"
    by simp
  have k: "pageChunksOf failing_env sample_cfg ?inp ''abcdefghijkl''
             = [''abcde'', ''fghij'', ''kl'']"
    by (simp add: pageChunksOf_def contentMaxTokens_def pageContentOf_def contentFormat_def
        failing_env_def sample_env_def sample_input_def sample_cfg_def)
  have h3: "1 < length (pageChunksOf failing_env sample_cfg ?inp ''abcdefghijkl'')"
    by (simp add: k)
  have h4: "processInstructions failing_env 1
     (instructions ?inp @ ''```''
        @ pageChunksOf failing_env sample_cfg ?inp ''abcdefghijkl'' ! 1 @ ''```'')
     = Inl ''429''"
    by (simp add: failing_env_def)
  have p: "processInstructions failing_env 1 ''Sum:```fghij```'' = Inl ''429''"
    "processInstructions failing_env 0 ''Sum:```abcde```'' \<noteq> Inl ''429''"
    by (simp_all add: failing_env_def sample_env_def)
  show ?thesis
    using h1 k p split_chunk_failure_logs_no_usage [OF h1 h2 h3 h4, of "[0, 2, 1]"]
    by (simp add: getTotalTokenUsage_def new_OpenaiAPIUsage_def)
qed



subsection \<open>The rendering format\<close>

text \<open>
  C10, as stated, fails at the empty string: it is a format value other than \<open>markdown\<close>
  and \<open>text\<close>, but \<open>input.content || DEFAULT_CONTENT\<close> replaces it by \<open>markdown\<close>, so the
  page is converted to markdown and not to shrunk HTML.
\<close>

theorem empty_format_is_converted_to_markdown:
  "Input.content (sample_input\<lparr>Input.content := Some ''''\<rparr>) = Some ''''
   \<and> '''' \<notin> {''markdown'', ''text''}
   \<and> pageContentOf sample_env (sample_input\<lparr>Input.content := Some ''''\<rparr>) ''abc''
       = htmlToMarkdown sample_env ''abc''
   \<and> pageContentOf sample_env (sample_input\<lparr>Input.content := Some ''''\<rparr>) ''abc''
       \<noteq> shrinkHtml sample_env ''abc''
   \<and> calls (requestHandler sample_env sample_cfg
         (sample_input\<lparr>Input.content := Some ''''\<rparr>) [] ''abc'')
       = [''Sum:```# abc```'']"
  by (simp add: requestHandler_def singleCall_def Let_def buildPrompt_def pageContentOf_def
      contentFormat_def DEFAULT_CONTENT_def sample_env_def sample_input_def sample_cfg_def)

text \<open>
  C10, amended. For every page, any non-empty format value other than \<open>markdown\<close> and
  \<open>text\<close> is processed via the shrunk-HTML conversion, and the whole run of the handler is
  the run for the value \<open>html\<close>. An unset format and the empty string are processed as
  \<open>markdown\<close>. No format value \<open>f\<close> is rejected: the handler returns, or throws the error
  of a failed model call, or throws the error for an unsupported \<open>longContentConfig\<close>.
\<close>

theorem other_formats_take_shrunk_html_path:
  assumes "Input.content inp = Some c" and "c \<noteq> ''''"
    and "c \<noteq> ''markdown''" and "c \<noteq> ''text''"
  shows "pageContentOf env inp html = shrinkHtml env html
    \<and> requestHandler env cfg inp order html
        = requestHandler env cfg (inp\<lparr>Input.content := Some ''html''\<rparr>) order html
    \<and> pageContentOf env (inp\<lparr>Input.content := None\<rparr>) html = htmlToMarkdown env html
    \<and> pageContentOf env (inp\<lparr>Input.content := Some ''''\<rparr>) html = htmlToMarkdown env html
    \<and> outcome (requestHandler env cfg (inp\<lparr>Input.content := f\<rparr>) order html)
        \<in> {Returned,
            Thrown (Error (''Unsupported config value for longContentConfig: ''
              @ (case longContentConfig inp of None \<Rightarrow> ''undefined'' | Some v \<Rightarrow> v)))}
          \<union> range (\<lambda>e. Thrown (Rethrown e))"
proof -
  have p: "pageContentOf env inp html = shrinkHtml env html"
    using assms by (simp add: pageContentOf_def contentFormat_def)
  have q: "pageContentOf env (inp\<lparr>Input.content := Some ''html''\<rparr>) html = shrinkHtml env html"
    by (simp add: pageContentOf_def contentFormat_def)
  let ?inp' = "inp\<lparr>Input.content := Some ''html''\<rparr>"
  have pq: "pageContentOf env ?inp' html = pageContentOf env inp html"
    by (simp add: p q)
  have b: "contentMaxTokens env cfg ?inp' = contentMaxTokens env cfg inp"
    by (simp add: contentMaxTokens_def)
  have d: "datasetItem env cfg ?inp' html ans acc = datasetItem env cfg inp html ans acc"
    for ans acc
    by (simp add: datasetItem_def pq)
  have s1: "singleCall env cfg ?inp' html prompt = singleCall env cfg inp html prompt"
    for prompt
    by (simp add: singleCall_def d Let_def split: sum.split)
  have s2: "splitCalls env cfg ?inp' order html = splitCalls env cfg inp order html"
    by (simp add: splitCalls_def pageChunksOf_def pq b d Let_def split: sum.split)
  have "requestHandler env cfg inp order html = requestHandler env cfg ?inp' order html"
    by (simp add: requestHandler_def Let_def pq b s1 s2)
  moreover have "pageContentOf env (inp\<lparr>Input.content := None\<rparr>) html = htmlToMarkdown env html"
    "pageContentOf env (inp\<lparr>Input.content := Some ''''\<rparr>) html = htmlToMarkdown env html"
    by (simp_all add: pageContentOf_def contentFormat_def DEFAULT_CONTENT_def)
  moreover have "outcome (requestHandler env cfg (inp\<lparr>Input.content := f\<rparr>) order html)
        \<in> {Returned,
            Thrown (Error (''Unsupported config value for longContentConfig: ''
              @ (case longContentConfig inp of None \<Rightarrow> ''undefined'' | Some v \<Rightarrow> v)))}
          \<union> range (\<lambda>e. Thrown (Rethrown e))"
    by (simp add: requestHandler_def singleCall_def splitCalls_def Let_def
        split: sum.split)
  ultimately show ?thesis
    using p by simp
qed

theorem other_formats_take_shrunk_html_path_witness:
  "Input.content (sample_input\<lparr>Input.content := Some ''xml''\<rparr>) = Some ''xml''
   \<and> ''xml'' \<notin> {'''', ''markdown'', ''text''}
   \<and> pageContentOf sample_env (sample_input\<lparr>Input.content := Some ''xml''\<rparr>) ''abc''
       = ''<p>abc</p>''
   \<and> requestHandler sample_env sample_cfg
         (sample_input\<lparr>Input.content := Some ''xml''\<rparr>) [] ''abc''
       = requestHandler sample_env sample_cfg
           (sample_input\<lparr>Input.content := Some ''html''\<rparr>) [] ''abc''"
proof -
  let ?inp = "sample_input\<lparr>Input.content := Some ''xml''\<rparr>"
  have h1: "Input.content ?inp = Some ''xml''"
    by simp
  have h2: "''xml'' \<noteq> ''''" and h3: "''xml'' \<noteq> ''markdown''" and h4: "''xml'' \<noteq> ''text''"
    by simp_all
  have s: "shrinkHtml sample_env ''abc'' = ''<p>abc</p>''"
    by (simp add: sample_env_def)
  show ?thesis
    using other_formats_take_shrunk_html_path [OF h1 h2 h3 h4, of sample_env "''abc''"
        sample_cfg "[]"]
    by (simp add: s)
qed


end
